theory Spec2Isabelle
  imports Main "HOL-Library.Word"
begin

section \<open>The \<open>bokeh png\<close> subcommand\<close>

text \<open>
  The source is \<^verbatim>\<open>bokeh/command/subcommands/png.py\<close>: the class \<^verbatim>\<open>PNG\<close> with
  its three methods \<^verbatim>\<open>invoke\<close>, \<^verbatim>\<open>write_file\<close> and \<^verbatim>\<open>file_contents\<close>.
  Each method becomes a function that takes the state of the program and returns the
  outcome (\<open>Inl\<close> an exception, \<open>Inr\<close> the returned value) together with the state it
  leaves, so that what has happened before an exception is still visible after it.
\<close>

subsection \<open>Data\<close>

type_synonym byte = "8 word"

text \<open>Exceptions, by their Python class; \<open>Raised\<close> is an exception of a collaborator.\<close>

datatype error =
    AttributeError string
  | OSError string
  | ValueError string
  | Raised string

text \<open>
  A model object on the heap. The source asks only whether an object is an instance of
  \<^verbatim>\<open>Plot\<close>, and reads and assigns the attributes \<^verbatim>\<open>plot_height\<close> and
  \<^verbatim>\<open>plot_width\<close> of one that is; any other root is kept by the name of its class.
\<close>

datatype model =
    is_Plot: Plot (plot_height: int) (plot_width: int)
  | NonPlot string

type_synonym ref = nat

text \<open>\<^verbatim>\<open>doc.roots\<close> is a list of references to model objects.\<close>

record document =
  roots :: "ref list"

text \<open>
  The parsed command line, as far as this class reads it: \<^verbatim>\<open>--width\<close> and
  \<^verbatim>\<open>--height\<close> are integers (\<^verbatim>\<open>type=int\<close>) with \<^verbatim>\<open>default=None\<close>.
\<close>

record args =
  width :: "int option"
  height :: "int option"

text \<open>
  The state: the heap of model objects, the attribute \<^verbatim>\<open>self.driver\<close> of the
  \<^verbatim>\<open>PNG\<close> instance (\<open>None\<close> while it has not been assigned), the warnings issued
  so far, the bytes written to \<^verbatim>\<open>sys.stdout.buffer\<close>, the file system (contents by
  name, which names may be opened for writing, and the calls of \<^verbatim>\<open>io.open\<close> made
  so far as pairs of name and mode), and the state \<open>outside\<close> of everything the
  collaborators work on (the browser, the operating system).
\<close>

record ('drv, 'x) world =
  objects :: "ref \<Rightarrow> model"
  driver :: "'drv option"
  warnings :: "string list"
  stdout_buffer :: "byte list"
  files :: "string \<rightharpoonup> byte list"
  writable :: "string \<Rightarrow> bool"
  open_calls :: "(string \<times> string) list"
  outside :: "'x"

subsection \<open>Python's library\<close>

text \<open>
  \<^verbatim>\<open>io.BytesIO\<close>: the bytes held and the position of the next read or write.
  \<^verbatim>\<open>seek\<close> moves the position; \<^verbatim>\<open>read()\<close> returns everything from the position
  to the end and leaves the position at the end.
\<close>

record bytesio =
  getvalue :: "byte list"
  tell :: nat

definition BytesIO :: bytesio where
  "BytesIO = \<lparr>getvalue = [], tell = 0\<rparr>"

definition seek :: "bytesio \<Rightarrow> nat \<Rightarrow> bytesio" where
  "seek buf n = buf\<lparr>tell := n\<rparr>"

definition read :: "bytesio \<Rightarrow> byte list \<times> bytesio" where
  "read buf =
     (drop (tell buf) (getvalue buf),
      buf\<lparr>tell := max (tell buf) (length (getvalue buf))\<rparr>)"

text \<open>
  \<^verbatim>\<open>x or y\<close> on an optional integer \<open>x\<close>: \<^verbatim>\<open>None\<close> and \<^verbatim>\<open>0\<close> are false, so
  \<open>y\<close> is the value; any other integer is true and is the value itself.
\<close>

definition py_or :: "int option \<Rightarrow> int \<Rightarrow> int" where
  "py_or x y = (case x of None \<Rightarrow> y | Some v \<Rightarrow> if v \<noteq> 0 then v else y)"

text \<open>
  \<^verbatim>\<open>warnings.warn(message)\<close>: the call is recorded, and the program goes on (no
  filter is installed that turns warnings into exceptions).
\<close>

definition warn :: "string \<Rightarrow> ('drv, 'x) world \<Rightarrow> ('drv, 'x) world" where
  "warn message w = w\<lparr>warnings := warnings w @ [message]\<rparr>"

text \<open>\<^verbatim>\<open>sys.stdout.buffer.write(data)\<close> appends to the binary stream of standard output.\<close>

definition stdout_buffer_write :: "byte list \<Rightarrow> ('drv, 'x) world \<Rightarrow> ('drv, 'x) world" where
  "stdout_buffer_write data w = w\<lparr>stdout_buffer := stdout_buffer w @ data\<rparr>"

text \<open>
  A file object: the name it was opened under and its position.
  \<^verbatim>\<open>io.open(name, mode)\<close> is decided by the first letter of the mode:
  \<^verbatim>\<open>w\<close> creates the file or truncates it to nothing, \<^verbatim>\<open>a\<close> creates it if
  it is missing and starts at its end, \<^verbatim>\<open>r\<close> needs the file to exist and starts
  at its beginning. Every call is recorded, also one that raises.
\<close>

record file_object =
  fname :: string
  fpos :: nat

definition io_open ::
  "string \<Rightarrow> string \<Rightarrow> ('drv, 'x) world \<Rightarrow> (error + file_object) \<times> ('drv, 'x) world" where
  "io_open filename mode w =
     (let w1 = w\<lparr>open_calls := open_calls w @ [(filename, mode)]\<rparr> in
      case mode of
        [] \<Rightarrow> (Inl (ValueError mode), w1)
      | c # _ \<Rightarrow>
          if c = CHR ''w'' then
            (if writable w filename
             then (Inr \<lparr>fname = filename, fpos = 0\<rparr>,
                   w1\<lparr>files := (files w)(filename \<mapsto> [])\<rparr>)
             else (Inl (OSError filename), w1))
          else if c = CHR ''a'' then
            (if writable w filename
             then (let old = (case files w filename of None \<Rightarrow> [] | Some bs \<Rightarrow> bs) in
                   (Inr \<lparr>fname = filename, fpos = length old\<rparr>,
                    w1\<lparr>files := (files w)(filename \<mapsto> old)\<rparr>))
             else (Inl (OSError filename), w1))
          else if c = CHR ''r'' then
            (case files w filename of
               None \<Rightarrow> (Inl (OSError filename), w1)
             | Some bs \<Rightarrow> (Inr \<lparr>fname = filename, fpos = 0\<rparr>, w1))
          else (Inl (ValueError mode), w1))"

text \<open>
  \<^verbatim>\<open>f.write(data)\<close> puts the data at the position, over what is there and past the
  end if need be (a position beyond the end is reached over zero bytes), and moves the
  position behind it. The bytes are in the file when the \<^verbatim>\<open>with\<close> block is left.
\<close>

definition file_write ::
  "file_object \<Rightarrow> byte list \<Rightarrow> ('drv, 'x) world \<Rightarrow> file_object \<times> ('drv, 'x) world" where
  "file_write f data w =
     (let old = (case files w (fname f) of None \<Rightarrow> [] | Some bs \<Rightarrow> bs);
          padded = old @ replicate (fpos f - length old) 0;
          new = take (fpos f) padded @ data @ drop (fpos f + length data) padded
      in (f\<lparr>fpos := fpos f + length data\<rparr>,
          w\<lparr>files := (files w)(fname f \<mapsto> new)\<rparr>))"

subsection \<open>The collaborators\<close>

text \<open>
  The functions that \<^verbatim>\<open>png.py\<close> imports or inherits are not part of the file; they
  are parameters of the model.
  \<^item> \<^verbatim>\<open>create_webdriver\<close>, \<^verbatim>\<open>terminate_webdriver\<close> and
    \<^verbatim>\<open>get_screenshot_as_png\<close> of \<^verbatim>\<open>bokeh.io.export\<close>, and the \<^verbatim>\<open>save\<close>
    method of the image, work on the outside; the screenshot reads the document and
    the objects it refers to, and \<^verbatim>\<open>save\<close> returns the buffer as it has left it.
  \<^item> \<^verbatim>\<open>invoke\<close> and \<^verbatim>\<open>after_write_file\<close> of the base class
    \<^verbatim>\<open>FileOutputSubcommand\<close> run on the instance and may do anything to the state;
    the inherited \<^verbatim>\<open>invoke\<close> reaches \<^verbatim>\<open>write_file\<close> through \<^verbatim>\<open>self\<close>, so it
    receives that method as an argument.
\<close>

record ('drv, 'img, 'x) collaborators =
  create_webdriver :: "'x \<Rightarrow> (error + 'drv) \<times> 'x"
  terminate_webdriver :: "'drv \<Rightarrow> 'x \<Rightarrow> (error + unit) \<times> 'x"
  get_screenshot_as_png ::
    "document \<Rightarrow> (ref \<Rightarrow> model) \<Rightarrow> 'drv \<Rightarrow> 'x \<Rightarrow> (error + 'img) \<times> 'x"
  image_save :: "'img \<Rightarrow> bytesio \<Rightarrow> string \<Rightarrow> 'x \<Rightarrow> (error + bytesio) \<times> 'x"
  super_invoke ::
    "(args \<Rightarrow> string \<Rightarrow> document \<Rightarrow> ('drv, 'x) world \<Rightarrow> (error + unit) \<times> ('drv, 'x) world)
      \<Rightarrow> args \<Rightarrow> ('drv, 'x) world \<Rightarrow> (error + unit) \<times> ('drv, 'x) world"
  after_write_file ::
    "args \<Rightarrow> string \<Rightarrow> document \<Rightarrow> ('drv, 'x) world \<Rightarrow> (error + unit) \<times> ('drv, 'x) world"

subsection \<open>\<^verbatim>\<open>PNG.file_contents\<close>\<close>

text \<open>
  Lines 110 to 117, the size arguments:
  \<^verbatim>\<open>
  if args.width is not None or args.height is not None:
      layout = doc.roots
      if len(layout) != 1 or not isinstance(layout[0], Plot):
          warnings.warn("Export called with height or width kwargs on a non-single Plot layout. The size values will be ignored.")
      else:
          plot = layout[0]
          plot.plot_height = args.height or plot.plot_height
          plot.plot_width  = args.width or plot.plot_width
  \<close>
  \<^verbatim>\<open>or\<close> does not evaluate \<^verbatim>\<open>layout[0]\<close> when the length is not 1.
\<close>

definition size_warning :: string where
  "size_warning =
     ''Export called with height or width kwargs on a non-single Plot layout. The size values will be ignored.''"

definition setattr_plot_height :: "ref \<Rightarrow> int \<Rightarrow> ('drv, 'x) world \<Rightarrow> ('drv, 'x) world" where
  "setattr_plot_height r v w =
     w\<lparr>objects := (objects w)(r := Plot v (plot_width (objects w r)))\<rparr>"

definition setattr_plot_width :: "ref \<Rightarrow> int \<Rightarrow> ('drv, 'x) world \<Rightarrow> ('drv, 'x) world" where
  "setattr_plot_width r v w =
     w\<lparr>objects := (objects w)(r := Plot (plot_height (objects w r)) v)\<rparr>"

definition file_contents_sizes :: "args \<Rightarrow> document \<Rightarrow> ('drv, 'x) world \<Rightarrow> ('drv, 'x) world" where
  "file_contents_sizes args doc w =
     (if width args \<noteq> None \<or> height args \<noteq> None then
        (let layout = roots doc in
         if length layout \<noteq> 1 \<or> \<not> is_Plot (objects w (layout ! 0)) then
           warn size_warning w
         else
           (let plot = layout ! 0;
                w1 = setattr_plot_height plot
                       (py_or (height args) (plot_height (objects w plot))) w;
                w2 = setattr_plot_width plot
                       (py_or (width args) (plot_width (objects w1 plot))) w1
            in w2))
      else w)"

text \<open>
  Lines 119 to 123, the screenshot and its encoding:
  \<^verbatim>\<open>
  image = get_screenshot_as_png(doc, driver=self.driver)
  buf = io.BytesIO()
  image.save(buf, "png")
  buf.seek(0)
  return buf.read()
  \<close>
  Reading \<^verbatim>\<open>self.driver\<close> raises \<^verbatim>\<open>AttributeError\<close> when \<^verbatim>\<open>invoke\<close> has not
  assigned it.
\<close>

definition file_contents_capture ::
  "('drv, 'img, 'x) collaborators \<Rightarrow> document \<Rightarrow> ('drv, 'x) world
     \<Rightarrow> (error + byte list) \<times> ('drv, 'x) world" where
  "file_contents_capture ext doc w =
     (case driver w of
        None \<Rightarrow> (Inl (AttributeError ''driver''), w)
      | Some d \<Rightarrow>
          (case get_screenshot_as_png ext doc (objects w) d (outside w) of
             (Inl e, x1) \<Rightarrow> (Inl e, w\<lparr>outside := x1\<rparr>)
           | (Inr img, x1) \<Rightarrow>
               (let buf = BytesIO in
                case image_save ext img buf ''png'' x1 of
                  (Inl e, x2) \<Rightarrow> (Inl e, w\<lparr>outside := x2\<rparr>)
                | (Inr buf1, x2) \<Rightarrow>
                    (let buf2 = seek buf1 0 in
                     (Inr (fst (read buf2)), w\<lparr>outside := x2\<rparr>)))))"

definition file_contents ::
  "('drv, 'img, 'x) collaborators \<Rightarrow> args \<Rightarrow> document \<Rightarrow> ('drv, 'x) world
     \<Rightarrow> (error + byte list) \<times> ('drv, 'x) world" where
  "file_contents ext args doc w =
     file_contents_capture ext doc (file_contents_sizes args doc w)"

subsection \<open>\<^verbatim>\<open>PNG.write_file\<close>\<close>

text \<open>
  \<^verbatim>\<open>
  contents = self.file_contents(args, doc)
  if filename == '-':
      sys.stdout.buffer.write(contents)
  else:
      with io.open(filename, "w+b") as f:
          f.write(contents)
  self.after_write_file(args, filename, doc)
  \<close>
\<close>

definition write_file ::
  "('drv, 'img, 'x) collaborators \<Rightarrow> args \<Rightarrow> string \<Rightarrow> document \<Rightarrow> ('drv, 'x) world
     \<Rightarrow> (error + unit) \<times> ('drv, 'x) world" where
  "write_file ext args filename doc w =
     (case file_contents ext args doc w of
        (Inl e, w1) \<Rightarrow> (Inl e, w1)
      | (Inr contents, w1) \<Rightarrow>
          if filename = ''-'' then
            after_write_file ext args filename doc (stdout_buffer_write contents w1)
          else
            (case io_open filename ''w+b'' w1 of
               (Inl e, w2) \<Rightarrow> (Inl e, w2)
             | (Inr f, w2) \<Rightarrow>
                 after_write_file ext args filename doc (snd (file_write f contents w2))))"

subsection \<open>\<^verbatim>\<open>PNG.invoke\<close>\<close>

text \<open>
  \<^verbatim>\<open>
  self.driver = create_webdriver()
  try:
      super(PNG, self).invoke(args)
  finally:
      terminate_webdriver(self.driver)
  \<close>
  The \<^verbatim>\<open>finally\<close> clause runs whatever the outcome \<open>r\<close> of the inherited method.
  An exception of the clause itself is the one that leaves \<^verbatim>\<open>invoke\<close>; otherwise
  the outcome is \<open>r\<close>.
\<close>

definition invoke ::
  "('drv, 'img, 'x) collaborators \<Rightarrow> args \<Rightarrow> ('drv, 'x) world
     \<Rightarrow> (error + unit) \<times> ('drv, 'x) world" where
  "invoke ext args w =
     (case create_webdriver ext (outside w) of
        (Inl e, x1) \<Rightarrow> (Inl e, w\<lparr>outside := x1\<rparr>)
      | (Inr d, x1) \<Rightarrow>
          (let w1 = w\<lparr>driver := Some d, outside := x1\<rparr> in
           case super_invoke ext (write_file ext) args w1 of
             (r, w2) \<Rightarrow>
               (case driver w2 of
                  None \<Rightarrow> (Inl (AttributeError ''driver''), w2)
                | Some d2 \<Rightarrow>
                    (case terminate_webdriver ext d2 (outside w2) of
                       (Inl e, x3) \<Rightarrow> (Inl e, w2\<lparr>outside := x3\<rparr>)
                     | (Inr u, x3) \<Rightarrow> (r, w2\<lparr>outside := x3\<rparr>)))))"

subsection \<open>Single-plot layouts\<close>

text \<open>
  A single-plot layout: the document has exactly one root and that root is an instance
  of \<^verbatim>\<open>Plot\<close>.
\<close>

definition single_plot_layout :: "document \<Rightarrow> (ref \<Rightarrow> model) \<Rightarrow> bool" where
  "single_plot_layout doc objs = (case roots doc of [r] \<Rightarrow> is_Plot (objs r) | _ \<Rightarrow> False)"

subsection \<open>An example environment\<close>

text \<open>
  Concrete collaborators, on which the theorems below are run. A driver is a number,
  the outside is the list of the calls it has seen, and an image is the list of the
  widths and heights of the plots among the roots. Saving writes a four-byte
  signature and one byte for each number at the position of the buffer and leaves the
  position behind them. The inherited \<^verbatim>\<open>invoke\<close> of the example writes one
  document to each of a list of file names and stops at the first exception.
\<close>

definition example_screenshot ::
  "document \<Rightarrow> (ref \<Rightarrow> model) \<Rightarrow> nat \<Rightarrow> string list \<Rightarrow> (error + int list) \<times> string list" where
  "example_screenshot doc objs d x =
     (Inr (concat (map (\<lambda>r. case objs r of Plot h v \<Rightarrow> [v, h] | NonPlot c \<Rightarrow> []) (roots doc))),
      x @ [''screenshot''])"

definition example_save ::
  "int list \<Rightarrow> bytesio \<Rightarrow> string \<Rightarrow> string list \<Rightarrow> (error + bytesio) \<times> string list" where
  "example_save img buf fmt x =
     (let data = [137, 80, 78, 71] @ map word_of_int img in
      (Inr \<lparr>getvalue = take (tell buf) (getvalue buf) @ data, tell = tell buf + length data\<rparr>,
       x @ [''save'']))"

fun example_jobs ::
  "string list \<Rightarrow> document \<Rightarrow> (args \<Rightarrow> string \<Rightarrow> document \<Rightarrow> 'w \<Rightarrow> (error + unit) \<times> 'w)
     \<Rightarrow> args \<Rightarrow> 'w \<Rightarrow> (error + unit) \<times> 'w" where
  "example_jobs [] doc cb a w = (Inr (), w)"
| "example_jobs (n # ns) doc cb a w =
     (case cb a n doc w of
        (Inl e, w1) \<Rightarrow> (Inl e, w1)
      | (Inr u, w1) \<Rightarrow> example_jobs ns doc cb a w1)"

definition example_doc :: document where
  "example_doc = \<lparr>roots = [0]\<rparr>"

definition example_ext :: "(nat, int list, string list) collaborators" where
  "example_ext =
     \<lparr>create_webdriver = (\<lambda>x. (Inr 7, x @ [''create''])),
      terminate_webdriver = (\<lambda>d x. (Inr (), x @ [''terminate''])),
      get_screenshot_as_png = example_screenshot,
      image_save = example_save,
      super_invoke = example_jobs [''-'', ''plot.png''] example_doc,
      after_write_file = (\<lambda>a n doc w. (Inr (), w))\<rparr>"

text \<open>The same environment with a browser that fails to take the screenshot.\<close>

definition failing_ext :: "(nat, int list, string list) collaborators" where
  "failing_ext =
     example_ext\<lparr>get_screenshot_as_png :=
       (\<lambda>doc objs d x. (Inl (Raised ''WebDriverException''), x @ [''screenshot'']))\<rparr>"

text \<open>
  A state with one plot of height 40 and width 60 at address 0, a file
  \<^verbatim>\<open>plot.png\<close> that already holds three bytes, and a driver stored.
\<close>

definition example_world :: "(nat, string list) world" where
  "example_world =
     \<lparr>objects = (\<lambda>r. if r = 0 then Plot 40 60 else NonPlot ''Row''),
      driver = Some 7,
      warnings = [],
      stdout_buffer = [],
      files = [''plot.png'' \<mapsto> [1, 2, 3]],
      writable = (\<lambda>n. n \<noteq> ''/''),
      open_calls = [],
      outside = []\<rparr>"

section \<open>Properties\<close>

subsection \<open>Auxiliary facts\<close>

lemmas png_defs =
  file_contents_def file_contents_sizes_def file_contents_capture_def write_file_def
  invoke_def setattr_plot_height_def setattr_plot_width_def py_or_def warn_def
  stdout_buffer_write_def io_open_def file_write_def BytesIO_def seek_def read_def Let_def

lemmas example_defs =
  example_ext_def failing_ext_def example_world_def example_doc_def example_screenshot_def
  example_save_def

lemma sizes_frame:
  "driver (file_contents_sizes a doc w) = driver w"
  "stdout_buffer (file_contents_sizes a doc w) = stdout_buffer w"
  "files (file_contents_sizes a doc w) = files w"
  "writable (file_contents_sizes a doc w) = writable w"
  "open_calls (file_contents_sizes a doc w) = open_calls w"
  "outside (file_contents_sizes a doc w) = outside w"
  by (simp_all add: file_contents_sizes_def warn_def setattr_plot_height_def
        setattr_plot_width_def Let_def)

lemma capture_frame:
  "snd (file_contents_capture ext doc w) =
     w\<lparr>outside := outside (snd (file_contents_capture ext doc w))\<rparr>"
  by (simp add: file_contents_capture_def Let_def split: option.splits prod.splits sum.splits)

lemma capture_keeps:
  "objects (snd (file_contents_capture ext doc w)) = objects w"
  "driver (snd (file_contents_capture ext doc w)) = driver w"
  "warnings (snd (file_contents_capture ext doc w)) = warnings w"
  "stdout_buffer (snd (file_contents_capture ext doc w)) = stdout_buffer w"
  "files (snd (file_contents_capture ext doc w)) = files w"
  "writable (snd (file_contents_capture ext doc w)) = writable w"
  "open_calls (snd (file_contents_capture ext doc w)) = open_calls w"
  by (subst capture_frame, simp)+

lemma file_contents_keeps:
  "driver (snd (file_contents ext a doc w)) = driver w"
  "stdout_buffer (snd (file_contents ext a doc w)) = stdout_buffer w"
  "files (snd (file_contents ext a doc w)) = files w"
  "writable (snd (file_contents ext a doc w)) = writable w"
  "open_calls (snd (file_contents ext a doc w)) = open_calls w"
  by (simp_all add: file_contents_def capture_keeps sizes_frame)

lemma file_contents_objects:
  "objects (snd (file_contents ext a doc w)) = objects (file_contents_sizes a doc w)"
  "warnings (snd (file_contents ext a doc w)) = warnings (file_contents_sizes a doc w)"
  by (simp_all add: file_contents_def capture_keeps)

lemma single_plot_layout_iff:
  "single_plot_layout doc objs \<longleftrightarrow> \<not> (length (roots doc) \<noteq> 1 \<or> \<not> is_Plot (objs (roots doc ! 0)))"
  by (cases "roots doc"; simp add: single_plot_layout_def split: list.splits)

lemma sizes_single_plot:
  assumes "roots doc = [r]" and "is_Plot (objects w r)"
  shows "file_contents_sizes a doc w =
           w\<lparr>objects := (objects w)(r := Plot (py_or (height a) (plot_height (objects w r)))
                                            (py_or (width a) (plot_width (objects w r))))\<rparr>"
proof -
  have same: "(objects w)(r := Plot (plot_height (objects w r)) (plot_width (objects w r))) = objects w"
    using assms(2) by (simp add: fun_upd_idem)
  show ?thesis
  proof (cases "width a \<noteq> None \<or> height a \<noteq> None")
    case True
    then show ?thesis using assms
      by (simp add: file_contents_sizes_def Let_def setattr_plot_height_def setattr_plot_width_def)
  next
    case False
    then show ?thesis using same
      by (simp add: file_contents_sizes_def py_or_def)
  qed
qed

lemma sizes_warning_case:
  assumes "width a \<noteq> None \<or> height a \<noteq> None" and "\<not> single_plot_layout doc (objects w)"
  shows "file_contents_sizes a doc w = warn size_warning w"
  using assms by (simp add: file_contents_sizes_def single_plot_layout_iff Let_def)

lemma read_after_seek_0: "fst (read (seek buf 0)) = getvalue buf"
  by (simp add: read_def seek_def)

lemma write_after_truncate:
  assumes "io_open filename ''w+b'' w = (Inr f, w2)"
  shows "snd (file_write f contents w2) =
           w\<lparr>files := (files w)(filename \<mapsto> contents),
              open_calls := open_calls w @ [(filename, ''w+b'')]\<rparr>"
  using assms by (auto simp: io_open_def file_write_def Let_def split: if_splits)

lemma open_w_fails:
  "\<not> writable w filename \<Longrightarrow>
     io_open filename ''w+b'' w =
       (Inl (OSError filename), w\<lparr>open_calls := open_calls w @ [(filename, ''w+b'')]\<rparr>)"
  by (simp add: io_open_def)

lemma open_w_succeeds:
  "writable w filename \<Longrightarrow> \<exists>f w2. io_open filename ''w+b'' w = (Inr f, w2)"
  by (simp add: io_open_def)

lemma invoke_create_raises:
  "create_webdriver ext (outside w) = (Inl e, x1) \<Longrightarrow>
     invoke ext a w = (Inl e, w\<lparr>outside := x1\<rparr>)"
  by (simp add: invoke_def)

subsection \<open>The three methods\<close>

text \<open>
  C1. \<^verbatim>\<open>file_contents\<close> returns a byte buffer exactly when the driver is stored,
  \<^verbatim>\<open>get_screenshot_as_png\<close> returns an image for the document and that driver, and
  the image's \<^verbatim>\<open>save\<close> into a fresh \<^verbatim>\<open>BytesIO\<close> in the format \<^verbatim>\<open>"png"\<close> returns;
  the bytes returned are then all the bytes the buffer holds after the save, wherever
  the save has left its position, since they are read from position 0.
\<close>

theorem file_contents_returns_saved_buffer:
  "file_contents ext a doc w = (Inr contents, w') \<longleftrightarrow>
     (\<exists>d img x1 buf.
        driver w = Some d \<and>
        get_screenshot_as_png ext doc (objects (file_contents_sizes a doc w)) d (outside w)
          = (Inr img, x1) \<and>
        image_save ext img BytesIO ''png'' x1 = (Inr buf, outside w') \<and>
        contents = getvalue buf \<and>
        w' = (file_contents_sizes a doc w)\<lparr>outside := outside w'\<rparr>)"
  apply (simp add: file_contents_def file_contents_capture_def Let_def sizes_frame read_after_seek_0
      split: option.splits prod.splits sum.splits)
  apply auto
  done

theorem file_contents_returns_saved_buffer_witness:
  "file_contents example_ext \<lparr>width = None, height = Some 30\<rparr> example_doc example_world =
     (Inr [137, 80, 78, 71, 60, 30],
      example_world\<lparr>objects := (objects example_world)(0 := Plot 30 60),
                    outside := [''screenshot'', ''save'']\<rparr>)
   \<and> (\<exists>d img x1 buf.
        driver example_world = Some d \<and>
        get_screenshot_as_png example_ext example_doc
          (objects (file_contents_sizes \<lparr>width = None, height = Some 30\<rparr> example_doc example_world))
          d (outside example_world) = (Inr img, x1) \<and>
        image_save example_ext img BytesIO ''png'' x1 = (Inr buf, [''screenshot'', ''save'']) \<and>
        [137, 80, 78, 71, 60, 30] = getvalue buf)"
proof -
  have run:
    "file_contents example_ext \<lparr>width = None, height = Some 30\<rparr> example_doc example_world =
       (Inr [137, 80, 78, 71, 60, 30],
        example_world\<lparr>objects := (objects example_world)(0 := Plot 30 60),
                      outside := [''screenshot'', ''save'']\<rparr>)"
    by (simp add: png_defs example_defs)
  show ?thesis
    using file_contents_returns_saved_buffer [THEN iffD1, OF run] run by auto
qed

text \<open>
  C2. When \<^verbatim>\<open>create_webdriver\<close> returns a session \<open>d\<close>, the inherited
  \<^verbatim>\<open>invoke\<close>, and with it all processing of files, starts in the state in which the
  session exists and is stored in \<^verbatim>\<open>self.driver\<close>. Whatever its outcome \<open>r\<close>, a
  normal return or an exception, and provided it leaves \<^verbatim>\<open>self.driver\<close> as it is,
  \<^verbatim>\<open>terminate_webdriver\<close> is then called on \<open>d\<close> in the state the inherited method
  has left; \<^verbatim>\<open>invoke\<close> ends with the outcome \<open>r\<close>, or with the exception of
  \<^verbatim>\<open>terminate_webdriver\<close> if it raises one.
\<close>

theorem invoke_terminates_webdriver:
  assumes "create_webdriver ext (outside w) = (Inr d, x1)"
    and "super_invoke ext (write_file ext) a (w\<lparr>driver := Some d, outside := x1\<rparr>) = (r, w2)"
    and "driver w2 = Some d"
  shows "\<exists>t x3. terminate_webdriver ext d (outside w2) = (t, x3) \<and>
           invoke ext a w = (case t of Inl e \<Rightarrow> Inl e | Inr u \<Rightarrow> r, w2\<lparr>outside := x3\<rparr>)"
  using assms by (simp add: invoke_def Let_def split: prod.splits sum.splits)

theorem invoke_terminates_webdriver_witness:
  "create_webdriver example_ext (outside example_world) = (Inr 7, [''create''])
   \<and> driver (snd (super_invoke example_ext (write_file example_ext)
                     \<lparr>width = None, height = None\<rparr>
                     (example_world\<lparr>driver := Some 7, outside := [''create'']\<rparr>))) = Some 7
   \<and> fst (invoke example_ext \<lparr>width = None, height = None\<rparr> example_world) = Inr ()
   \<and> outside (snd (invoke example_ext \<lparr>width = None, height = None\<rparr> example_world)) =
       [''create'', ''screenshot'', ''save'', ''screenshot'', ''save'', ''terminate'']
   \<and> create_webdriver failing_ext (outside example_world) = (Inr 7, [''create''])
   \<and> driver (snd (super_invoke failing_ext (write_file failing_ext)
                     \<lparr>width = None, height = None\<rparr>
                     (example_world\<lparr>driver := Some 7, outside := [''create'']\<rparr>))) = Some 7
   \<and> fst (invoke failing_ext \<lparr>width = None, height = None\<rparr> example_world) =
       Inl (Raised ''WebDriverException'')
   \<and> outside (snd (invoke failing_ext \<lparr>width = None, height = None\<rparr> example_world)) =
       [''create'', ''screenshot'', ''terminate'']"
proof -
  let ?a = "\<lparr>width = None, height = None\<rparr>"
  let ?w1 = "example_world\<lparr>driver := Some 7, outside := [''create'']\<rparr>"
  have c1: "create_webdriver example_ext (outside example_world) = (Inr 7, [''create''])"
    by (simp add: example_defs)
  have c2: "create_webdriver failing_ext (outside example_world) = (Inr 7, [''create''])"
    by (simp add: example_defs)
  have s1: "super_invoke example_ext (write_file example_ext) ?a ?w1 =
              (Inr (), ?w1\<lparr>stdout_buffer := [137, 80, 78, 71, 60, 40],
                          files := [''plot.png'' \<mapsto> [137, 80, 78, 71, 60, 40]],
                          open_calls := [(''plot.png'', ''w+b'')],
                          outside := [''create'', ''screenshot'', ''save'', ''screenshot'', ''save'']\<rparr>)"
    by (simp add: png_defs example_defs)
  have s2: "super_invoke failing_ext (write_file failing_ext) ?a ?w1 =
              (Inl (Raised ''WebDriverException''),
               ?w1\<lparr>outside := [''create'', ''screenshot'']\<rparr>)"
    by (simp add: png_defs example_defs)
  have t1: "terminate_webdriver example_ext 7 x = (Inr (), x @ [''terminate''])" for x
    by (simp add: example_defs)
  have t2: "terminate_webdriver failing_ext 7 x = (Inr (), x @ [''terminate''])" for x
    by (simp add: example_defs)
  show ?thesis
    using invoke_terminates_webdriver [OF c1 s1] invoke_terminates_webdriver [OF c2 s2]
    by (auto simp: c1 c2 s1 s2 t1 t2)
qed

text \<open>
  C3. \<^verbatim>\<open>file_contents\<close> issues a warning if and only if \<^verbatim>\<open>args.width\<close> or
  \<^verbatim>\<open>args.height\<close> is not \<^verbatim>\<open>None\<close> and the roots of the document are not a
  single-plot layout. In that case the warning is the one about ignored size values, no
  object is modified, and the export goes on: the outcome is that of the screenshot and
  its encoding, run after the warning.
\<close>

theorem file_contents_warning:
  "(warnings (snd (file_contents ext a doc w)) \<noteq> warnings w) =
      ((width a \<noteq> None \<or> height a \<noteq> None) \<and> \<not> single_plot_layout doc (objects w))
   \<and> ((width a \<noteq> None \<or> height a \<noteq> None) \<and> \<not> single_plot_layout doc (objects w) \<longrightarrow>
        warnings (snd (file_contents ext a doc w)) = warnings w @ [size_warning] \<and>
        objects (snd (file_contents ext a doc w)) = objects w \<and>
        file_contents ext a doc w = file_contents_capture ext doc (warn size_warning w))"
proof (cases "(width a \<noteq> None \<or> height a \<noteq> None) \<and> \<not> single_plot_layout doc (objects w)")
  case True
  then have "file_contents_sizes a doc w = warn size_warning w"
    by (simp add: sizes_warning_case)
  then show ?thesis using True
    by (simp add: file_contents_def capture_keeps warn_def)
next
  case False
  have "warnings (file_contents_sizes a doc w) = warnings w"
  proof (cases "width a \<noteq> None \<or> height a \<noteq> None")
    case True
    with False have "single_plot_layout doc (objects w)" by auto
    then obtain r where "roots doc = [r]" "is_Plot (objects w r)"
      by (auto simp: single_plot_layout_def split: list.splits)
    then show ?thesis by (simp add: sizes_single_plot)
  next
    case False
    then show ?thesis by (simp add: file_contents_sizes_def)
  qed
  then show ?thesis using False by (simp add: file_contents_objects)
qed

theorem file_contents_warning_witness:
  "width \<lparr>width = Some 0, height = None\<rparr> = Some 0
   \<and> \<not> single_plot_layout \<lparr>roots = [0, 1]\<rparr> (objects example_world)
   \<and> warnings (snd (file_contents example_ext \<lparr>width = Some 0, height = None\<rparr>
                       \<lparr>roots = [0, 1]\<rparr> example_world)) = [size_warning]
   \<and> objects (snd (file_contents example_ext \<lparr>width = Some 0, height = None\<rparr>
                       \<lparr>roots = [0, 1]\<rparr> example_world)) = objects example_world
   \<and> fst (file_contents example_ext \<lparr>width = Some 0, height = None\<rparr>
                       \<lparr>roots = [0, 1]\<rparr> example_world) = Inr [137, 80, 78, 71, 60, 40]"
proof -
  have c: "(width \<lparr>width = Some 0, height = None\<rparr> \<noteq> None
              \<or> height \<lparr>width = Some 0, height = None\<rparr> \<noteq> None)
           \<and> \<not> single_plot_layout \<lparr>roots = [0, 1]\<rparr> (objects example_world)"
    by (simp add: single_plot_layout_def)
  have w0: "warnings example_world = []"
    by (simp add: example_defs)
  have r: "fst (file_contents_capture example_ext \<lparr>roots = [0, 1]\<rparr> (warn size_warning example_world))
             = Inr [137, 80, 78, 71, 60, 40]"
    by (simp add: png_defs example_defs)
  show ?thesis
    using file_contents_warning [of example_ext "\<lparr>width = Some 0, height = None\<rparr>"
            "\<lparr>roots = [0, 1]\<rparr>" example_world] c w0 r
    by (simp add: capture_keeps warn_def)
qed

text \<open>
  C4 (amended). For a document whose only root is a \<^verbatim>\<open>Plot\<close>: if \<^verbatim>\<open>args.width\<close>
  is neither \<^verbatim>\<open>None\<close> nor 0, the plot's \<^verbatim>\<open>plot_width\<close> after
  \<^verbatim>\<open>file_contents\<close> is \<^verbatim>\<open>args.width\<close>; if \<^verbatim>\<open>args.height\<close> is neither
  \<^verbatim>\<open>None\<close> nor 0, its \<^verbatim>\<open>plot_height\<close> is \<^verbatim>\<open>args.height\<close>; and the
  screenshot is requested with both assignments already made.
\<close>

theorem file_contents_overrides_sizes:
  assumes "roots doc = [r]" and "is_Plot (objects w r)"
  shows "(\<forall>v. width a = Some v \<and> v \<noteq> 0 \<longrightarrow>
            plot_width (objects (snd (file_contents ext a doc w)) r) = v)
       \<and> (\<forall>v. height a = Some v \<and> v \<noteq> 0 \<longrightarrow>
            plot_height (objects (snd (file_contents ext a doc w)) r) = v)
       \<and> file_contents ext a doc w =
           file_contents_capture ext doc
             (w\<lparr>objects := (objects w)(r :=
                   Plot (py_or (height a) (plot_height (objects w r)))
                        (py_or (width a) (plot_width (objects w r))))\<rparr>)"
  using sizes_single_plot [OF assms, of a]
  by (simp add: file_contents_def capture_keeps py_or_def)

theorem file_contents_overrides_sizes_witness:
  "roots example_doc = [0] \<and> is_Plot (objects example_world 0)
   \<and> plot_width (objects (snd (file_contents example_ext \<lparr>width = Some 80, height = Some 0\<rparr>
                                  example_doc example_world)) 0) = 80
   \<and> fst (file_contents example_ext \<lparr>width = Some 80, height = Some 0\<rparr>
            example_doc example_world) = Inr [137, 80, 78, 71, 80, 40]"
proof -
  have h1: "roots example_doc = [0]" by (simp add: example_defs)
  have h2: "is_Plot (objects example_world 0)" by (simp add: example_defs)
  have r: "fst (file_contents_capture example_ext example_doc
                 (example_world\<lparr>objects := (objects example_world)(0 := Plot 40 80)\<rparr>))
             = Inr [137, 80, 78, 71, 80, 40]"
    by (simp add: png_defs example_defs)
  have o: "objects example_world 0 = Plot 40 60" by (simp add: example_defs)
  show ?thesis
    using file_contents_overrides_sizes [OF h1 h2, of "\<lparr>width = Some 80, height = Some 0\<rparr>" example_ext]
      h1 h2 r o
    by (simp add: py_or_def capture_keeps)
qed

text \<open>
  C4 in its original wording asks for \<^verbatim>\<open>plot_width\<close> to equal \<^verbatim>\<open>args.width\<close> whenever
  \<^verbatim>\<open>args.width\<close> is not \<^verbatim>\<open>None\<close>. With \<^verbatim>\<open>--width 0\<close> on a plot of width 60
  the width stays 60.
\<close>

theorem width_zero_counterexample:
  "\<not> (roots example_doc = [0] \<and> is_Plot (objects example_world 0)
        \<and> width \<lparr>width = Some 0, height = None\<rparr> \<noteq> None \<longrightarrow>
      Some (plot_width (objects (snd (file_contents example_ext \<lparr>width = Some 0, height = None\<rparr>
                                        example_doc example_world)) 0))
        = width \<lparr>width = Some 0, height = None\<rparr>)"
  by (simp add: png_defs example_defs)

text \<open>
  C5. When \<^verbatim>\<open>file_contents\<close> returns the bytes \<open>contents\<close>, \<^verbatim>\<open>write_file\<close>
  appends them to the binary stream of standard output if the file name is \<^verbatim>\<open>'-'\<close>,
  and otherwise makes them the content of the file of that name (if the file can be
  opened for writing; if not, the exception of \<^verbatim>\<open>io.open\<close> leaves
  \<^verbatim>\<open>write_file\<close>). After the write it calls \<^verbatim>\<open>after_write_file\<close> with the same
  arguments, file name and document, and ends with its outcome.
\<close>

theorem write_file_writes_contents:
  assumes "file_contents ext a doc w = (Inr contents, w1)"
  shows "write_file ext a filename doc w =
          (if filename = ''-'' then
             after_write_file ext a filename doc (w1\<lparr>stdout_buffer := stdout_buffer w1 @ contents\<rparr>)
           else if writable w1 filename then
             after_write_file ext a filename doc
               (w1\<lparr>files := (files w1)(filename \<mapsto> contents),
                   open_calls := open_calls w1 @ [(filename, ''w+b'')]\<rparr>)
           else (Inl (OSError filename),
                 w1\<lparr>open_calls := open_calls w1 @ [(filename, ''w+b'')]\<rparr>))"
proof (cases "filename = ''-''")
  case True
  then show ?thesis using assms by (simp add: write_file_def stdout_buffer_write_def)
next
  case False
  show ?thesis
  proof (cases "writable w1 filename")
    case True
    then obtain f w2 where op: "io_open filename ''w+b'' w1 = (Inr f, w2)"
      using open_w_succeeds by blast
    show ?thesis using assms False True op write_after_truncate [OF op, of contents]
      by (simp add: write_file_def)
  next
    case nw: False
    show ?thesis using assms False nw by (simp add: write_file_def open_w_fails)
  qed
qed

theorem write_file_writes_contents_witness:
  "file_contents example_ext \<lparr>width = None, height = None\<rparr> example_doc example_world =
     (Inr [137, 80, 78, 71, 60, 40], example_world\<lparr>outside := [''screenshot'', ''save'']\<rparr>)
   \<and> write_file example_ext \<lparr>width = None, height = None\<rparr> ''-'' example_doc example_world =
       (Inr (), example_world\<lparr>stdout_buffer := [137, 80, 78, 71, 60, 40],
                               outside := [''screenshot'', ''save'']\<rparr>)
   \<and> write_file example_ext \<lparr>width = None, height = None\<rparr> ''plot.png'' example_doc example_world =
       (Inr (), example_world\<lparr>files := [''plot.png'' \<mapsto> [137, 80, 78, 71, 60, 40]],
                               open_calls := [(''plot.png'', ''w+b'')],
                               outside := [''screenshot'', ''save'']\<rparr>)
   \<and> write_file example_ext \<lparr>width = None, height = None\<rparr> ''/'' example_doc example_world =
       (Inl (OSError ''/''), example_world\<lparr>open_calls := [(''/'', ''w+b'')],
                               outside := [''screenshot'', ''save'']\<rparr>)"
proof -
  have run:
    "file_contents example_ext \<lparr>width = None, height = None\<rparr> example_doc example_world =
       (Inr [137, 80, 78, 71, 60, 40], example_world\<lparr>outside := [''screenshot'', ''save'']\<rparr>)"
    by (simp add: png_defs example_defs)
  have a: "after_write_file example_ext x n d v = (Inr (), v)" for x n d v
    by (simp add: example_defs)
  show ?thesis
    using write_file_writes_contents [OF run, of "''-''"]
          write_file_writes_contents [OF run, of "''plot.png''"]
          write_file_writes_contents [OF run, of "''/''"] run
    by (simp add: a example_world_def)
qed

text \<open>
  C6. When \<^verbatim>\<open>file_contents\<close> raises, \<^verbatim>\<open>write_file\<close> raises the same exception
  and has done nothing more than \<^verbatim>\<open>file_contents\<close> had done: no file has changed or
  been created, nothing has been written to standard output, and \<^verbatim>\<open>io.open\<close> has
  not been called.
\<close>

theorem write_file_export_raises:
  assumes "fst (file_contents ext a doc w) = Inl e"
  shows "write_file ext a filename doc w = (Inl e, snd (file_contents ext a doc w))
       \<and> files (snd (write_file ext a filename doc w)) = files w
       \<and> stdout_buffer (snd (write_file ext a filename doc w)) = stdout_buffer w
       \<and> open_calls (snd (write_file ext a filename doc w)) = open_calls w"
proof -
  obtain w1 where fc: "file_contents ext a doc w = (Inl e, w1)"
    using assms by (cases "file_contents ext a doc w") simp
  have "write_file ext a filename doc w = (Inl e, w1)"
    by (simp add: write_file_def fc)
  moreover have "files w1 = files w" "stdout_buffer w1 = stdout_buffer w" "open_calls w1 = open_calls w"
    using file_contents_keeps [of ext a doc w] by (simp_all add: fc)
  ultimately show ?thesis by (simp add: fc)
qed

theorem write_file_export_raises_witness:
  "fst (file_contents failing_ext \<lparr>width = Some 80, height = None\<rparr> example_doc example_world)
     = Inl (Raised ''WebDriverException'')
   \<and> fst (write_file failing_ext \<lparr>width = Some 80, height = None\<rparr> ''plot.png'' example_doc example_world)
       = Inl (Raised ''WebDriverException'')
   \<and> files (snd (write_file failing_ext \<lparr>width = Some 80, height = None\<rparr> ''plot.png''
                    example_doc example_world)) ''plot.png'' = Some [1, 2, 3]
   \<and> stdout_buffer (snd (write_file failing_ext \<lparr>width = Some 80, height = None\<rparr> ''-''
                    example_doc example_world)) = []
   \<and> open_calls (snd (write_file failing_ext \<lparr>width = Some 80, height = None\<rparr> ''plot.png''
                    example_doc example_world)) = []"
proof -
  have run:
    "fst (file_contents failing_ext \<lparr>width = Some 80, height = None\<rparr> example_doc example_world)
       = Inl (Raised ''WebDriverException'')"
    by (simp add: png_defs example_defs)
  have w: "files example_world ''plot.png'' = Some [1, 2, 3]" "stdout_buffer example_world = []"
    "open_calls example_world = []"
    by (simp_all add: example_defs)
  show ?thesis
    using write_file_export_raises [OF run, of "''plot.png''"]
          write_file_export_raises [OF run, of "''-''"] run w
    by (simp add: file_contents_keeps)
qed

text \<open>
  C7. When \<^verbatim>\<open>args.width\<close> and \<^verbatim>\<open>args.height\<close> are both \<^verbatim>\<open>None\<close>,
  \<^verbatim>\<open>file_contents\<close> modifies no object, so every root has the width and height it
  had, and issues no warning: it is the screenshot and its encoding alone. (The list
  \<^verbatim>\<open>doc.roots\<close> is never assigned by the method; the document is a value here.)
\<close>

theorem file_contents_without_sizes:
  assumes "width a = None" and "height a = None"
  shows "objects (snd (file_contents ext a doc w)) = objects w
       \<and> warnings (snd (file_contents ext a doc w)) = warnings w
       \<and> file_contents ext a doc w = file_contents_capture ext doc w"
  using assms by (simp add: file_contents_def file_contents_sizes_def capture_keeps)

theorem file_contents_without_sizes_witness:
  "width \<lparr>width = None, height = None\<rparr> = None \<and> height \<lparr>width = None, height = None\<rparr> = None
   \<and> objects (snd (file_contents example_ext \<lparr>width = None, height = None\<rparr> example_doc example_world))
       = objects example_world
   \<and> objects (snd (file_contents example_ext \<lparr>width = None, height = None\<rparr> example_doc example_world)) 0
       = Plot 40 60
   \<and> warnings (snd (file_contents example_ext \<lparr>width = None, height = None\<rparr> example_doc example_world))
       = []"
proof -
  have w: "objects example_world 0 = Plot 40 60" "warnings example_world = []"
    by (simp_all add: example_defs)
  show ?thesis
    using file_contents_without_sizes [of "\<lparr>width = None, height = None\<rparr>" example_ext
            example_doc example_world] w
    by (simp add: capture_keeps)
qed

text \<open>
  C8. For a document whose only root is a \<^verbatim>\<open>Plot\<close>, a height of 0 is treated as an
  absent one: \<^verbatim>\<open>plot_height\<close> keeps its value, and the whole call does what it does
  with \<^verbatim>\<open>args.height\<close> set to \<^verbatim>\<open>None\<close>. The same holds for a width of 0. No
  warning is issued for such a document.
\<close>

theorem zero_size_is_absent:
  assumes "roots doc = [r]" and "is_Plot (objects w r)"
  shows "(height a = Some 0 \<longrightarrow>
            plot_height (objects (snd (file_contents ext a doc w)) r) = plot_height (objects w r) \<and>
            file_contents ext a doc w = file_contents ext (a\<lparr>height := None\<rparr>) doc w)
       \<and> (width a = Some 0 \<longrightarrow>
            plot_width (objects (snd (file_contents ext a doc w)) r) = plot_width (objects w r) \<and>
            file_contents ext a doc w = file_contents ext (a\<lparr>width := None\<rparr>) doc w)
       \<and> warnings (snd (file_contents ext a doc w)) = warnings w"
  using sizes_single_plot [OF assms, of a]
        sizes_single_plot [OF assms, of "a\<lparr>height := None\<rparr>"]
        sizes_single_plot [OF assms, of "a\<lparr>width := None\<rparr>"]
  by (simp add: file_contents_def capture_keeps py_or_def)

theorem zero_size_is_absent_witness:
  "roots example_doc = [0] \<and> is_Plot (objects example_world 0)
   \<and> height \<lparr>width = Some 0, height = Some 0\<rparr> = Some 0
   \<and> width \<lparr>width = Some 0, height = Some 0\<rparr> = Some 0
   \<and> objects (snd (file_contents example_ext \<lparr>width = Some 0, height = Some 0\<rparr>
                      example_doc example_world)) 0 = Plot 40 60
   \<and> warnings (snd (file_contents example_ext \<lparr>width = Some 0, height = Some 0\<rparr>
                      example_doc example_world)) = []"
proof -
  have h1: "roots example_doc = [0]" by (simp add: example_defs)
  have h2: "is_Plot (objects example_world 0)" by (simp add: example_defs)
  have w: "objects example_world 0 = Plot 40 60" "warnings example_world = []"
    by (simp_all add: example_defs)
  have p: "is_Plot (objects (snd (file_contents example_ext \<lparr>width = Some 0, height = Some 0\<rparr>
                      example_doc example_world)) 0)"
    by (simp add: png_defs example_defs)
  show ?thesis
    using zero_size_is_absent [OF h1 h2, of "\<lparr>width = Some 0, height = Some 0\<rparr>" example_ext]
      h1 h2 w p
    by (auto intro: model.expand)
qed

text \<open>
  C9. For a document whose only root is a \<^verbatim>\<open>Plot\<close>: if \<^verbatim>\<open>args.width\<close> is
  \<^verbatim>\<open>None\<close>, \<^verbatim>\<open>plot_width\<close> after the call is what it was before, and if
  \<^verbatim>\<open>args.height\<close> is \<^verbatim>\<open>None\<close>, so is \<^verbatim>\<open>plot_height\<close>.
\<close>

theorem one_size_leaves_the_other:
  assumes "roots doc = [r]" and "is_Plot (objects w r)"
  shows "(width a = None \<longrightarrow>
            plot_width (objects (snd (file_contents ext a doc w)) r) = plot_width (objects w r))
       \<and> (height a = None \<longrightarrow>
            plot_height (objects (snd (file_contents ext a doc w)) r) = plot_height (objects w r))"
  using sizes_single_plot [OF assms, of a]
  by (simp add: file_contents_objects py_or_def)

theorem one_size_leaves_the_other_witness:
  "roots example_doc = [0] \<and> is_Plot (objects example_world 0)
   \<and> width \<lparr>width = None, height = Some 30\<rparr> = None
   \<and> plot_width (objects (snd (file_contents example_ext \<lparr>width = None, height = Some 30\<rparr>
                      example_doc example_world)) 0) = 60
   \<and> height \<lparr>width = Some 80, height = None\<rparr> = None
   \<and> plot_height (objects (snd (file_contents example_ext \<lparr>width = Some 80, height = None\<rparr>
                      example_doc example_world)) 0) = 40"
proof -
  have h1: "roots example_doc = [0]" by (simp add: example_defs)
  have h2: "is_Plot (objects example_world 0)" by (simp add: example_defs)
  have w: "objects example_world 0 = Plot 40 60"
    by (simp add: example_defs)
  show ?thesis
    using one_size_leaves_the_other [OF h1 h2, of "\<lparr>width = None, height = Some 30\<rparr>" example_ext]
          one_size_leaves_the_other [OF h1 h2, of "\<lparr>width = Some 80, height = None\<rparr>" example_ext]
          h1 h2 w
    by simp
qed

text \<open>
  C10. When the file name is not \<^verbatim>\<open>'-'\<close> and \<^verbatim>\<open>write_file\<close> returns, the file
  has been opened once, in mode \<^verbatim>\<open>"w+b"\<close>, and its content is exactly the bytes
  that \<^verbatim>\<open>file_contents\<close> returned, whatever it held before; no other file has
  changed. (\<^verbatim>\<open>after_write_file\<close> is taken to leave the files and the record of
  \<^verbatim>\<open>io.open\<close> calls alone.)
\<close>

theorem write_file_replaces_file:
  assumes "filename \<noteq> ''-''"
    and "file_contents ext a doc w = (Inr contents, w1)"
    and "write_file ext a filename doc w = (Inr u, w')"
    and "\<And>v. files (snd (after_write_file ext a filename doc v)) = files v"
    and "\<And>v. open_calls (snd (after_write_file ext a filename doc v)) = open_calls v"
  shows "files w' filename = Some contents
       \<and> (\<forall>n. n \<noteq> filename \<longrightarrow> files w' n = files w n)
       \<and> open_calls w' = open_calls w @ [(filename, ''w+b'')]"
proof -
  have k: "files w1 = files w" "open_calls w1 = open_calls w"
    using file_contents_keeps [of ext a doc w] by (simp_all add: assms(2))
  show ?thesis
  proof (cases "writable w1 filename")
    case True
    then obtain f w2 where op: "io_open filename ''w+b'' w1 = (Inr f, w2)"
      using open_w_succeeds by blast
    let ?v = "w1\<lparr>files := (files w1)(filename \<mapsto> contents),
                   open_calls := open_calls w1 @ [(filename, ''w+b'')]\<rparr>"
    have "after_write_file ext a filename doc ?v = (Inr u, w')"
      using assms(1,2,3) op write_after_truncate [OF op, of contents]
      by (simp add: write_file_def)
    then have "files w' = files ?v" "open_calls w' = open_calls ?v"
      using assms(4) [of ?v] assms(5) [of ?v] by simp_all
    then show ?thesis by (simp add: k)
  next
    case False
    then show ?thesis using assms(1,2,3) by (simp add: write_file_def open_w_fails)
  qed
qed

theorem write_file_replaces_file_witness:
  "''plot.png'' \<noteq> ''-''
   \<and> files example_world ''plot.png'' = Some [1, 2, 3]
   \<and> fst (write_file example_ext \<lparr>width = None, height = None\<rparr> ''plot.png''
             example_doc example_world) = Inr ()
   \<and> files (snd (write_file example_ext \<lparr>width = None, height = None\<rparr> ''plot.png''
                    example_doc example_world)) ''plot.png'' = Some [137, 80, 78, 71, 60, 40]
   \<and> open_calls (snd (write_file example_ext \<lparr>width = None, height = None\<rparr> ''plot.png''
                    example_doc example_world)) = [(''plot.png'', ''w+b'')]"
proof -
  let ?a = "\<lparr>width = None, height = None\<rparr>"
  have n: "''plot.png'' \<noteq> ''-''" by simp
  have run:
    "file_contents example_ext ?a example_doc example_world =
       (Inr [137, 80, 78, 71, 60, 40], example_world\<lparr>outside := [''screenshot'', ''save'']\<rparr>)"
    by (simp add: png_defs example_defs)
  have ok: "fst (write_file example_ext ?a ''plot.png'' example_doc example_world) = Inr ()"
    by (simp add: png_defs example_defs)
  then have wf: "write_file example_ext ?a ''plot.png'' example_doc example_world =
      (Inr (), snd (write_file example_ext ?a ''plot.png'' example_doc example_world))"
    by (metis prod.collapse)
  have f: "files (snd (after_write_file example_ext ?a ''plot.png'' example_doc v)) = files v" for v
    by (simp add: example_defs)
  have g: "open_calls (snd (after_write_file example_ext ?a ''plot.png'' example_doc v)) = open_calls v"
    for v
    by (simp add: example_defs)
  have w: "files example_world ''plot.png'' = Some [1, 2, 3]" "open_calls example_world = []"
    by (simp_all add: example_defs)
  show ?thesis
    using write_file_replaces_file [OF n run wf f g] ok w by simp
qed

end
